theory Spec2Isabelle
  imports Complex_Main
begin

section \<open>StreatMart: order lifecycle, inventory and supplier ratings\<close>

text \<open>
  A shallow embedding of the three write paths of the server:
  \<^item> \<open>POST /place\<close>, the orders router (\<open>src/unnamed/part_003\<close>, lines 9-79),
  \<^item> \<open>PATCH /:orderId/status\<close>, the orders router (\<open>src/unnamed/part_003\<close>, lines 142-192),
  \<^item> \<open>POST /\<close>, the reviews router (\<open>src/unnamed/part_004\<close>, lines 10-64), with its
    helper \<open>updateSupplierRating\<close> (lines 133-155),

  over the schemas of \<open>src/unnamed/part_002\<close> (materials) and
  \<open>src/server/models/Order.js\<close> (orders and reviews).

  Conventions. A handler is a function from the database, the authenticated user
  (\<open>req.user\<close>) and the request body to the response and the database it leaves behind.
  Collections keyed by \<open>_id\<close> are maps; the review collection, which the aggregation
  scans, is a list. The \<open>Number\<close>s of the placement path (prices, quantities, stocks,
  totals) are values of a type \<open>'n\<close> that the handlers only touch through the platform's
  operations, which the model takes as a parameter (\<open>'n arith\<close>): what is proved of
  \<open>POST /place\<close> holds for IEEE doubles as for any other arithmetic. Ratings are
  integers, the stored average an exact rational. An ObjectId is its string; the ids in
  a request body are taken to be well formed, the order id in the path of the status
  route is not (\<open>find_by_id\<close>). An optional field of a request body is an \<open>option\<close>;
  \<open>!x\<close> of the source is absence or the empty string (0 for a rating).
  Every \<open>return res.status(c).json(...)\<close> and every exception caught by the handler's
  \<open>catch\<close> is a branch of the model, paired with the database as it stands at that point.
  The \<open>populate\<close> calls, which only decorate the document in the response, are left out:
  the payload of a response is the document as saved.
\<close>

subsection \<open>Documents\<close>

type_synonym objectId = string

datatype role = Vendor | Supplier

record user_doc =
  u_id :: objectId
  u_role :: role
  u_phone :: string
  u_rating :: rat
  u_totalRatings :: nat

text \<open>Material schema (\<open>src/unnamed/part_002\<close>): the fields the handlers read or write.\<close>

record 'n material_doc =
  m_supplierId :: objectId
  m_name :: string
  m_unitPrice :: 'n
  m_unit :: string
  m_stock :: 'n
  m_isAvailable :: bool

text \<open>Order schema (models/Order.js, lines 3-84).\<close>

datatype order_status = Pending | Confirmed | Out_for_delivery | Delivered | Cancelled

record 'n order_item =
  oi_materialId :: objectId
  oi_name :: string
  oi_quantity :: 'n
  oi_unitPrice :: 'n
  oi_unit :: string

record 'n order_doc =
  o_id :: objectId
  o_vendorId :: objectId
  o_supplierId :: objectId
  o_items :: "'n order_item list"
  o_subtotal :: 'n
  o_deliveryFee :: 'n
  o_totalAmount :: 'n
  o_status :: order_status
  o_deliveryAddress :: string
  o_vendorPhone :: string
  o_supplierNotes :: "string option"
  o_estimatedDeliveryTime :: "int option"
  o_actualDeliveryTime :: "int option"

text \<open>Review schema (models/Order.js, lines 93-126).\<close>

record categories_doc =
  c_quality :: "int option"
  c_delivery :: "int option"
  c_service :: "int option"

record review_doc =
  r_vendorId :: objectId
  r_supplierId :: objectId
  r_orderId :: objectId
  r_rating :: int
  r_comment :: "string option"
  r_categories :: "categories_doc option"

record 'n db =
  materials :: "objectId \<rightharpoonup> 'n material_doc"
  orders :: "objectId \<rightharpoonup> 'n order_doc"
  reviews :: "review_doc list"
  users :: "objectId \<rightharpoonup> user_doc"

subsection \<open>Responses and JavaScript helpers\<close>

text \<open>\<open>res.status(code).json({ message, <document> })\<close>.\<close>

datatype 'a response = Reply (status_code: nat) (message: string) (payload: "'a option")

text \<open>\<open>!s\<close> for a string field of the body: absent or the empty string.\<close>

definition falsy :: "string option \<Rightarrow> bool" where
  "falsy s = (s = None \<or> s = Some [])"

text \<open>
  The platform's arithmetic on \<open>Number\<close>s, as far as the placement handler uses it: the
  value of a numeric literal, \<open>+\<close>, \<open>-\<close>, \<open>*\<close>, \<open><\<close>, the \<open>>=\<close> of the schemas' \<open>min\<close>
  validators, and the conversion to a string inside a template literal. Nothing is
  assumed of these operations.
\<close>

record 'n arith =
  num_lit :: "int \<Rightarrow> 'n"
  num_add :: "'n \<Rightarrow> 'n \<Rightarrow> 'n"
  num_sub :: "'n \<Rightarrow> 'n \<Rightarrow> 'n"
  num_mul :: "'n \<Rightarrow> 'n \<Rightarrow> 'n"
  num_less :: "'n \<Rightarrow> 'n \<Rightarrow> bool"
  num_ge :: "'n \<Rightarrow> 'n \<Rightarrow> bool"
  num_show :: "'n \<Rightarrow> string"

text \<open>
  Exact integer arithmetic, with which doubles agree on the small integers of the
  scenarios below. Number to string, for integers:
\<close>

fun show_nat :: "nat \<Rightarrow> string" where
  "show_nat n =
     (if n < 10 then [''0123456789'' ! n]
      else show_nat (n div 10) @ [''0123456789'' ! (n mod 10)])"

declare show_nat.simps [simp del]

definition show_int :: "int \<Rightarrow> string" where
  "show_int i = (if i < 0 then CHR ''-'' # show_nat (nat (- i)) else show_nat (nat i))"

definition exact :: "int arith" where
  "exact = \<lparr> num_lit = (\<lambda>i. i), num_add = (\<lambda>a b. a + b), num_sub = (\<lambda>a b. a - b),
             num_mul = (\<lambda>a b. a * b), num_less = (\<lambda>a b. a < b), num_ge = (\<lambda>a b. b \<le> a),
             num_show = show_int \<rparr>"

subsection \<open>POST /place\<close>

record 'n cart_item =
  ci_materialId :: objectId
  ci_quantity :: 'n

record 'n place_body =
  pb_supplierId :: "objectId option"
  pb_items :: "'n cart_item list option"
  pb_deliveryAddress :: "string option"

text \<open>
  The loop of lines 21-49. Each iteration reads the material from the database as the
  previous iterations left it, and line 48 saves the decremented stock before the next
  item is looked at. An early \<open>return\<close> (lines 24, 30) ends the handler with the
  database as it stands. \<open>material.save()\<close> runs the schema's validator \<open>stock: min 0\<close>
  on the new stock; a stock that fails it makes the save throw into the \<open>catch\<close> of line
  75 and is not written (with exact arithmetic the check of line 29 rules that out).
\<close>

fun place_items ::
  "'n arith \<Rightarrow> 'n db \<Rightarrow> 'n cart_item list \<Rightarrow> 'n \<Rightarrow> 'n order_item list \<Rightarrow>
   ('n order_doc response \<times> 'n db) + ('n db \<times> 'n \<times> 'n order_item list)" where
  "place_items A d [] subtotal orderItems = Inr (d, subtotal, orderItems)"
| "place_items A d (item # rest) subtotal orderItems =
     (case materials d (ci_materialId item) of
        None \<Rightarrow>
          Inl (Reply 400 (''Material '' @ ci_materialId item @ '' is not available'') None, d)
      | Some material \<Rightarrow>
          if \<not> m_isAvailable material then
            Inl (Reply 400 (''Material '' @ ci_materialId item @ '' is not available'') None, d)
          else if num_less A (m_stock material) (ci_quantity item) then
            Inl (Reply 400 (''Insufficient stock for '' @ m_name material @
                   ''. Available: '' @ num_show A (m_stock material)) None, d)
          else
            let itemTotal = num_mul A (m_unitPrice material) (ci_quantity item);
                snapshot = \<lparr> oi_materialId = ci_materialId item,
                             oi_name = m_name material,
                             oi_quantity = ci_quantity item,
                             oi_unitPrice = m_unitPrice material,
                             oi_unit = m_unit material \<rparr>;
                saved = material \<lparr> m_stock := num_sub A (m_stock material) (ci_quantity item) \<rparr>
            in if num_ge A (m_stock saved) (num_lit A 0) then
                 place_items A (d \<lparr> materials := (materials d)(ci_materialId item \<mapsto> saved) \<rparr>)
                   rest (num_add A subtotal itemTotal) (orderItems @ [snapshot])
               else Inl (Reply 500 ''Server error placing order'' None, d))"

text \<open>
  The validators of the order schema that \<open>order.save()\<close> runs on a new document:
  \<open>required\<close> on a string rejects the empty string, \<open>min\<close> bounds a number.
\<close>

definition order_item_valid :: "'n arith \<Rightarrow> 'n order_item \<Rightarrow> bool" where
  "order_item_valid A it =
     (oi_name it \<noteq> [] \<and> num_ge A (oi_quantity it) (num_lit A 1) \<and>
      num_ge A (oi_unitPrice it) (num_lit A 0) \<and> oi_unit it \<noteq> [])"

definition order_valid :: "'n arith \<Rightarrow> 'n order_doc \<Rightarrow> bool" where
  "order_valid A ord =
     (list_all (order_item_valid A) (o_items ord) \<and>
      num_ge A (o_subtotal ord) (num_lit A 0) \<and>
      num_ge A (o_deliveryFee ord) (num_lit A 0) \<and>
      num_ge A (o_totalAmount ord) (num_lit A 0) \<and>
      o_deliveryAddress ord \<noteq> [] \<and> o_vendorPhone ord \<noteq> [])"

text \<open>
  The handler. \<open>newId\<close> is the ObjectId that \<open>new Order\<close> generates; inserting under an
  \<open>_id\<close> already in the collection is a duplicate-key error. A failed \<open>order.save()\<close>
  throws into the \<open>catch\<close> of line 75.
\<close>

definition placeOrder ::
  "'n arith \<Rightarrow> 'n db \<Rightarrow> user_doc \<Rightarrow> 'n place_body \<Rightarrow> objectId \<Rightarrow>
   'n order_doc response \<times> 'n db" where
  "placeOrder A d user body newId =
     (case (pb_supplierId body, pb_items body, pb_deliveryAddress body) of
        (Some supplierId, Some items, Some deliveryAddress) \<Rightarrow>
          if supplierId = [] \<or> items = [] \<or> deliveryAddress = [] then
            (Reply 400 ''Required fields are missing'' None, d)
          else
            (case place_items A d items (num_lit A 0) [] of
               Inl failed \<Rightarrow> failed
             | Inr (d', subtotal, orderItems) \<Rightarrow>
                 let deliveryFee = num_lit A 50;
                     totalAmount = num_add A subtotal deliveryFee;
                     ord = \<lparr> o_id = newId,
                             o_vendorId = u_id user,
                             o_supplierId = supplierId,
                             o_items = orderItems,
                             o_subtotal = subtotal,
                             o_deliveryFee = deliveryFee,
                             o_totalAmount = totalAmount,
                             o_status = Pending,
                             o_deliveryAddress = deliveryAddress,
                             o_vendorPhone = u_phone user,
                             o_supplierNotes = None,
                             o_estimatedDeliveryTime = None,
                             o_actualDeliveryTime = None \<rparr>
                 in if order_valid A ord \<and> orders d' newId = None then
                      (Reply 201 ''Order placed successfully'' (Some ord),
                       d' \<lparr> orders := (orders d')(newId \<mapsto> ord) \<rparr>)
                    else (Reply 500 ''Server error placing order'' None, d'))
      | _ \<Rightarrow> (Reply 400 ''Required fields are missing'' None, d))"

subsection \<open>PATCH /:orderId/status\<close>

record status_body =
  sb_status :: "string option"
  sb_supplierNotes :: "string option"
  sb_estimatedDeliveryTime :: "string option"

text \<open>The strings of the schema's \<open>enum\<close> (models/Order.js, line 58).\<close>

fun status_name :: "order_status \<Rightarrow> string" where
  "status_name Pending = ''pending''"
| "status_name Confirmed = ''confirmed''"
| "status_name Out_for_delivery = ''out_for_delivery''"
| "status_name Delivered = ''delivered''"
| "status_name Cancelled = ''cancelled''"

definition status_of_name :: "string \<Rightarrow> order_status option" where
  "status_of_name s =
     (if s = ''pending'' then Some Pending
      else if s = ''confirmed'' then Some Confirmed
      else if s = ''out_for_delivery'' then Some Out_for_delivery
      else if s = ''delivered'' then Some Delivered
      else if s = ''cancelled'' then Some Cancelled
      else None)"

text \<open>The table of lines 159-165, keyed by the stored status.\<close>

fun validTransitions :: "order_status \<Rightarrow> string list" where
  "validTransitions Pending = [''confirmed'', ''cancelled'']"
| "validTransitions Confirmed = [''out_for_delivery'', ''cancelled'']"
| "validTransitions Out_for_delivery = [''delivered'']"
| "validTransitions Delivered = []"
| "validTransitions Cancelled = []"

text \<open>
  Line 175: \<open>if (estimatedDeliveryTime) order.estimatedDeliveryTime = new Date(...)\<close>.
  \<open>parseDate\<close> stands for the platform's \<open>new Date(string)\<close>, \<open>None\<close> for an Invalid
  Date; the outer \<open>None\<close> of the result is the cast error with which the schema's
  \<open>Date\<close> path makes \<open>order.save()\<close> fail.
\<close>

definition set_estimated ::
  "(string \<Rightarrow> int option) \<Rightarrow> string option \<Rightarrow> int option \<Rightarrow> int option option" where
  "set_estimated parseDate eta old =
     (if falsy eta then Some old
      else case eta of
             None \<Rightarrow> Some old
           | Some e \<Rightarrow> (case parseDate e of None \<Rightarrow> None | Some t \<Rightarrow> Some (Some t)))"

text \<open>
  A query by \<open>_id\<close> given as a string. The driver first casts the string to an ObjectId
  and throws a CastError when it is not one; \<open>castable\<close> stands for that cast, which
  belongs to the driver and not to this repository. Every stored \<open>_id\<close> is an ObjectId,
  so the cast can only fail for a string under which nothing is stored.
\<close>

datatype cast_error = CastError

definition find_by_id ::
  "(string \<Rightarrow> bool) \<Rightarrow> (objectId \<rightharpoonup> 'a) \<Rightarrow> string \<Rightarrow> cast_error + 'a option" where
  "find_by_id castable collection idString =
     (case collection idString of
        Some doc \<Rightarrow> Inr (Some doc)
      | None \<Rightarrow> if castable idString then Inr None else Inl CastError)"

text \<open>
  The handler, lines 143-191. \<open>now\<close> is the value of \<open>new Date()\<close> at line 176.
  \<open>Order.findOne({ _id: req.params.orderId, supplierId: req.user._id })\<close> finds the order
  only when its supplier is the caller, and throws into the \<open>catch\<close> of line 188 when the
  path's id is not an ObjectId. \<open>order.save()\<close> validates the assigned status against the
  schema's enum and the assigned date; a failure is caught at line 188 and nothing is
  written.
\<close>

definition updateStatus ::
  "(string \<Rightarrow> bool) \<Rightarrow> (string \<Rightarrow> int option) \<Rightarrow> int \<Rightarrow> 'n db \<Rightarrow> user_doc \<Rightarrow> string \<Rightarrow>
   status_body \<Rightarrow> 'n order_doc response \<times> 'n db" where
  "updateStatus castable parseDate now d user orderId body =
     (case sb_status body of
        None \<Rightarrow> (Reply 400 ''Status is required'' None, d)
      | Some status \<Rightarrow>
          if status = [] then (Reply 400 ''Status is required'' None, d)
          else
            (case find_by_id castable (orders d) orderId of
               Inl thrown \<Rightarrow> (Reply 500 ''Server error updating order status'' None, d)
             | Inr None \<Rightarrow> (Reply 404 ''Order not found or unauthorized'' None, d)
             | Inr (Some ord) \<Rightarrow>
                 if o_supplierId ord \<noteq> u_id user then
                   (Reply 404 ''Order not found or unauthorized'' None, d)
                 else if status \<notin> set (validTransitions (o_status ord)) then
                   (Reply 400 (''Cannot transition from '' @ status_name (o_status ord) @
                      '' to '' @ status) None, d)
                 else
                   (case (status_of_name status,
                          set_estimated parseDate (sb_estimatedDeliveryTime body)
                            (o_estimatedDeliveryTime ord)) of
                      (Some st, Some eta) \<Rightarrow>
                        let saved = ord \<lparr>
                              o_status := st,
                              o_supplierNotes :=
                                (if falsy (sb_supplierNotes body) then o_supplierNotes ord
                                 else sb_supplierNotes body),
                              o_estimatedDeliveryTime := eta,
                              o_actualDeliveryTime :=
                                (if status = ''delivered'' then Some now
                                 else o_actualDeliveryTime ord) \<rparr>
                        in (Reply 200 ''Order status updated successfully'' (Some saved),
                            d \<lparr> orders := (orders d)(orderId \<mapsto> saved) \<rparr>)
                    | _ \<Rightarrow> (Reply 500 ''Server error updating order status'' None, d))))"




subsection \<open>POST / of the reviews router\<close>

record review_body =
  rb_orderId :: "objectId option"
  rb_supplierId :: "objectId option"
  rb_rating :: "int option"
  rb_comment :: "string option"
  rb_categories :: "categories_doc option"

text \<open>The validators of the review schema that \<open>review.save()\<close> runs.\<close>

definition sub_rating_valid :: "int option \<Rightarrow> bool" where
  "sub_rating_valid r = (case r of None \<Rightarrow> True | Some x \<Rightarrow> 1 \<le> x \<and> x \<le> 5)"

definition review_valid :: "review_doc \<Rightarrow> bool" where
  "review_valid r =
     (1 \<le> r_rating r \<and> r_rating r \<le> 5 \<and>
      (case r_comment r of None \<Rightarrow> True | Some c \<Rightarrow> length c \<le> 500) \<and>
      (case r_categories r of
         None \<Rightarrow> True
       | Some c \<Rightarrow> sub_rating_valid (c_quality c) \<and> sub_rating_valid (c_delivery c) \<and>
                   sub_rating_valid (c_service c)))"

text \<open>
  The names bound in the reviews module: its imports (lines 2-5, the default imports
  \<open>express\<close>, \<open>Review\<close>, \<open>Order\<close>, \<open>User\<close> and the named imports \<open>authenticate\<close>,
  \<open>requireRole\<close>) and its two top-level declarations. The module has no import of
  \<open>mongoose\<close>, and an ES module has no such global.
\<close>

datatype js_error = ReferenceError string

definition reviews_module_bindings :: "string list" where
  "reviews_module_bindings =
     [''express'', ''Review'', ''Order'', ''User'', ''authenticate'', ''requireRole'',
      ''router'', ''updateSupplierRating'']"

text \<open>Evaluating an identifier: one that no scope binds throws a ReferenceError.\<close>

definition resolve_identifier :: "string list \<Rightarrow> string \<Rightarrow> js_error + unit" where
  "resolve_identifier bindings x =
     (if x \<in> set bindings then Inr () else Inl (ReferenceError (x @ '' is not defined'')))"

text \<open>
  The aggregation pipeline of lines 135-144: \<open>$match\<close> on the supplier, then one group
  with \<open>$avg\<close> of the ratings and a count; no matching review gives an empty result.
\<close>

definition aggregate_rating :: "review_doc list \<Rightarrow> objectId \<Rightarrow> (rat \<times> nat) option" where
  "aggregate_rating rs supplierId =
     (let matched = filter (\<lambda>r. r_supplierId r = supplierId) rs
      in if matched = [] then None
         else Some (of_int (sum_list (map r_rating matched)) / of_nat (length matched),
                    length matched))"

text \<open>\<open>Math.round\<close>: the nearest integer, a half rounding up.\<close>

definition js_round :: "rat \<Rightarrow> int" where
  "js_round x = \<lfloor>x + 1 / 2\<rfloor>"

text \<open>
  \<open>updateSupplierRating\<close>, lines 133-155, in a module with the given bindings. The
  argument of \<open>Review.aggregate\<close> mentions \<open>mongoose.Types.ObjectId\<close> (line 136), so the
  identifier \<open>mongoose\<close> is evaluated before the pipeline runs; whatever the \<open>try\<close> block
  throws is logged by the \<open>catch\<close> of line 152 and the function returns.
  \<open>User.findByIdAndUpdate\<close> changes nothing when no user has the id.
\<close>

definition updateSupplierRating_in :: "string list \<Rightarrow> 'n db \<Rightarrow> objectId \<Rightarrow> 'n db" where
  "updateSupplierRating_in bindings d supplierId =
     (case resolve_identifier bindings ''mongoose'' of
        Inl thrown \<Rightarrow> d
      | Inr _ \<Rightarrow>
          (case aggregate_rating (reviews d) supplierId of
             None \<Rightarrow> d
           | Some (averageRating, totalReviews) \<Rightarrow>
               (case users d supplierId of
                  None \<Rightarrow> d
                | Some u \<Rightarrow>
                    d \<lparr> users := (users d)(supplierId \<mapsto>
                          u \<lparr> u_rating := of_int (js_round (averageRating * 10)) / 10,
                              u_totalRatings := totalReviews \<rparr>) \<rparr>)))"

definition updateSupplierRating :: "'n db \<Rightarrow> objectId \<Rightarrow> 'n db" where
  "updateSupplierRating = updateSupplierRating_in reviews_module_bindings"

text \<open>
  The handler, lines 11-63. \<open>!rating\<close> holds for an absent rating and for 0.
  \<open>Order.findOne({ _id, vendorId: req.user._id, status: 'delivered' })\<close> finds the order
  only when it is the caller's and delivered. A review that fails validation makes
  \<open>review.save()\<close> throw into the \<open>catch\<close> of line 60, before anything is written.
  (The unique index on \<open>orderId\<close> cannot reject the insert: line 32 has just found no
  review of the order.)
\<close>

definition addReview :: "'n db \<Rightarrow> user_doc \<Rightarrow> review_body \<Rightarrow> review_doc response \<times> 'n db" where
  "addReview d user body =
     (case (rb_orderId body, rb_supplierId body, rb_rating body) of
        (Some orderId, Some supplierId, Some rating) \<Rightarrow>
          if orderId = [] \<or> supplierId = [] \<or> rating = 0 then
            (Reply 400 ''Order ID, supplier ID, and rating are required'' None, d)
          else
            (case orders d orderId of
               None \<Rightarrow> (Reply 400 ''Order not found, unauthorized, or not delivered yet'' None, d)
             | Some ord \<Rightarrow>
                 if o_vendorId ord = u_id user \<and> o_status ord = Delivered then
                   (case find (\<lambda>r. r_orderId r = orderId) (reviews d) of
                      Some existingReview \<Rightarrow>
                        (Reply 400 ''Review already exists for this order'' None, d)
                    | None \<Rightarrow>
                        let review = \<lparr> r_vendorId = u_id user,
                                       r_supplierId = supplierId,
                                       r_orderId = orderId,
                                       r_rating = rating,
                                       r_comment = rb_comment body,
                                       r_categories = rb_categories body \<rparr>
                        in if review_valid review then
                             (Reply 201 ''Review added successfully'' (Some review),
                              updateSupplierRating (d \<lparr> reviews := reviews d @ [review] \<rparr>)
                                supplierId)
                           else (Reply 500 ''Server error adding review'' None, d))
                 else (Reply 400 ''Order not found, unauthorized, or not delivered yet'' None, d))
      | _ \<Rightarrow> (Reply 400 ''Order ID, supplier ID, and rating are required'' None, d))"

subsection \<open>The legal transitions in the spec's words\<close>

text \<open>
  The transition table of the spec's section 4.2, row by row, over the requested status
  as the request spells it. It is compared with \<open>validTransitions\<close> below.
\<close>

definition table_allows :: "order_status \<Rightarrow> string \<Rightarrow> bool" where
  "table_allows current requested =
     (current = Pending \<and> (requested = ''confirmed'' \<or> requested = ''cancelled'') \<or>
      current = Confirmed \<and> (requested = ''out_for_delivery'' \<or> requested = ''cancelled'') \<or>
      current = Out_for_delivery \<and> requested = ''delivered'')"

subsection \<open>A small marketplace\<close>

text \<open>
  The data of the spec's scenarios: vendor V1, suppliers S1 and S2, materials M1 (price
  20) and M2 (price 50), both of supplier S1, and the cart of two M1 and one M2.
\<close>

definition vendor1 :: user_doc where
  "vendor1 = \<lparr> u_id = ''V1'', u_role = Vendor, u_phone = ''9000000001'',
               u_rating = 0, u_totalRatings = 0 \<rparr>"

definition supplier1 :: user_doc where
  "supplier1 = \<lparr> u_id = ''S1'', u_role = Supplier, u_phone = ''9000000002'',
                 u_rating = 0, u_totalRatings = 0 \<rparr>"

definition supplier2 :: user_doc where
  "supplier2 = \<lparr> u_id = ''S2'', u_role = Supplier, u_phone = ''9000000003'',
                 u_rating = 0, u_totalRatings = 0 \<rparr>"

definition material1 :: "int \<Rightarrow> int material_doc" where
  "material1 stock = \<lparr> m_supplierId = ''S1'', m_name = ''Onion'', m_unitPrice = 20,
                       m_unit = ''kg'', m_stock = stock, m_isAvailable = True \<rparr>"

definition material2 :: "int \<Rightarrow> int material_doc" where
  "material2 stock = \<lparr> m_supplierId = ''S1'', m_name = ''Oil'', m_unitPrice = 50,
                       m_unit = ''liter'', m_stock = stock, m_isAvailable = True \<rparr>"

definition market :: "int \<Rightarrow> int \<Rightarrow> int db" where
  "market stock1 stock2 =
     \<lparr> materials = [''M1'' \<mapsto> material1 stock1, ''M2'' \<mapsto> material2 stock2],
       orders = Map.empty,
       reviews = [],
       users = [''V1'' \<mapsto> vendor1, ''S1'' \<mapsto> supplier1, ''S2'' \<mapsto> supplier2] \<rparr>"

definition cart :: "objectId \<Rightarrow> int place_body" where
  "cart supplierId =
     \<lparr> pb_supplierId = Some supplierId,
       pb_items = Some [\<lparr> ci_materialId = ''M1'', ci_quantity = 2 \<rparr>,
                        \<lparr> ci_materialId = ''M2'', ci_quantity = 1 \<rparr>],
       pb_deliveryAddress = Some ''12 Market Road'' \<rparr>"

text \<open>An order of vendor V1 with supplier S1 for two M1, in a given status.\<close>

definition order1 :: "objectId \<Rightarrow> order_status \<Rightarrow> int order_doc" where
  "order1 orderId st =
     \<lparr> o_id = orderId, o_vendorId = ''V1'', o_supplierId = ''S1'',
       o_items = [\<lparr> oi_materialId = ''M1'', oi_name = ''Onion'', oi_quantity = 2,
                    oi_unitPrice = 20, oi_unit = ''kg'' \<rparr>],
       o_subtotal = 40, o_deliveryFee = 50, o_totalAmount = 90, o_status = st,
       o_deliveryAddress = ''12 Market Road'', o_vendorPhone = ''9000000001'',
       o_supplierNotes = None, o_estimatedDeliveryTime = None,
       o_actualDeliveryTime = None \<rparr>"

text \<open>The market after that order was placed (stock of M1 down from 10 to 8).\<close>

definition market_with_order :: "order_status \<Rightarrow> int db" where
  "market_with_order st = (market 8 5) \<lparr> orders := [''O1'' \<mapsto> order1 ''O1'' st] \<rparr>"

text \<open>Three delivered orders of V1 with S1, none reviewed yet.\<close>

definition market_delivered :: "int db" where
  "market_delivered =
     (market 4 5) \<lparr> orders := [''O1'' \<mapsto> order1 ''O1'' Delivered,
                                ''O2'' \<mapsto> order1 ''O2'' Delivered,
                                ''O3'' \<mapsto> order1 ''O3'' Delivered] \<rparr>"

definition review_request :: "objectId \<Rightarrow> objectId \<Rightarrow> int \<Rightarrow> review_body" where
  "review_request orderId supplierId rating =
     \<lparr> rb_orderId = Some orderId, rb_supplierId = Some supplierId, rb_rating = Some rating,
       rb_comment = None, rb_categories = None \<rparr>"

definition status_request :: "string \<Rightarrow> status_body" where
  "status_request s =
     \<lparr> sb_status = Some s, sb_supplierNotes = None, sb_estimatedDeliveryTime = None \<rparr>"

text \<open>A stand-in for the platform's date parser: one string it reads, all others invalid.\<close>

definition parseDate1 :: "string \<Rightarrow> int option" where
  "parseDate1 s = (if s = ''2025-01-01T00:00:00.000Z'' then Some 1735689600000 else None)"

text \<open>
  A stand-in for the driver's cast: the strings of 24 hexadecimal digits. Every version
  of the driver casts these, and none casts \<open>not-an-object-id\<close>.
\<close>

definition hex24 :: "string \<Rightarrow> bool" where
  "hex24 s = (length s = 24 \<and> list_all (\<lambda>c. c \<in> set ''0123456789abcdefABCDEF'') s)"

subsection \<open>Changing who owns what\<close>

text \<open>
  Two devices for stating that a handler never looks at an owner: the database with the
  owning supplier of every material, or the supplier of every order, replaced by an
  arbitrary one.
\<close>

definition reassign_materials :: "(objectId \<Rightarrow> objectId) \<Rightarrow> 'n db \<Rightarrow> 'n db" where
  "reassign_materials owner d =
     d \<lparr> materials :=
           (\<lambda>k. map_option (\<lambda>m. m \<lparr> m_supplierId := owner k \<rparr>) (materials d k)) \<rparr>"

definition reassign_orders :: "(objectId \<Rightarrow> objectId) \<Rightarrow> 'n db \<Rightarrow> 'n db" where
  "reassign_orders supplier d =
     d \<lparr> orders :=
           (\<lambda>k. map_option (\<lambda>ord. ord \<lparr> o_supplierId := supplier k \<rparr>) (orders d k)) \<rparr>"

section \<open>Properties\<close>

lemmas market_defs =
  market_def cart_def vendor1_def supplier1_def supplier2_def material1_def material2_def

lemmas placement_defs =
  placeOrder_def market_defs order_valid_def order_item_valid_def exact_def Let_def

subsection \<open>Order placement\<close>

text \<open>The loop writes to the material collection only, whether it completes or returns early.\<close>

lemma place_items_frame:
  "place_items A d items subtotal acc = Inr (d', subtotal', acc') \<Longrightarrow>
     orders d' = orders d \<and> reviews d' = reviews d \<and> users d' = users d"
  by (induction items arbitrary: d subtotal acc)
     (auto split: option.splits if_splits simp: Let_def)

lemma place_items_failed_frame:
  "place_items A d items subtotal acc = Inl (reply, d') \<Longrightarrow>
     orders d' = orders d \<and> reviews d' = reviews d \<and> users d' = users d \<and>
     status_code reply \<noteq> 201 \<and> payload reply = None"
proof (induction items arbitrary: d subtotal acc)
  case Nil
  then show ?case by simp
next
  case (Cons item rest)
  show ?case
  proof (cases "materials d (ci_materialId item)")
    case None
    with Cons.prems show ?thesis by auto
  next
    case (Some material)
    show ?thesis
    proof (cases "m_isAvailable material \<and>
        \<not> num_less A (m_stock material) (ci_quantity item) \<and>
        num_ge A (num_sub A (m_stock material) (ci_quantity item)) (num_lit A 0)")
      case True
      with Some Cons.prems Cons.IH show ?thesis
        by (fastforce simp: Let_def)
    next
      case False
      with Some Cons.prems show ?thesis by (auto simp: Let_def split: if_splits)
    qed
  qed
qed

text \<open>A placement that does not answer 201 stores no order.\<close>

lemma placeOrder_failure_stores_no_order:
  assumes "status_code (fst (placeOrder A d user body newId)) \<noteq> 201"
  shows "orders (snd (placeOrder A d user body newId)) = orders d"
proof (cases "\<exists>supplierId items deliveryAddress.
    pb_supplierId body = Some supplierId \<and> pb_items body = Some items \<and>
    pb_deliveryAddress body = Some deliveryAddress \<and>
    supplierId \<noteq> [] \<and> items \<noteq> [] \<and> deliveryAddress \<noteq> []")
  case False
  then show ?thesis
    by (auto simp: placeOrder_def split: option.splits)
next
  case True
  then obtain supplierId items deliveryAddress where
    body: "pb_supplierId body = Some supplierId" "pb_items body = Some items"
      "pb_deliveryAddress body = Some deliveryAddress"
      "supplierId \<noteq> []" "items \<noteq> []" "deliveryAddress \<noteq> []"
    by blast
  show ?thesis
  proof (cases "place_items A d items (num_lit A 0) []")
    case (Inl failed)
    obtain r dd where "failed = (r, dd)" by (cases failed)
    with Inl place_items_failed_frame [of A d items "num_lit A 0" "[]" r dd] body show ?thesis
      by (simp add: placeOrder_def)
  next
    case (Inr passed)
    obtain d1 subtotal orderItems where "passed = (d1, subtotal, orderItems)"
      by (cases passed)
    with Inr place_items_frame [of A d items "num_lit A 0" "[]" d1 subtotal orderItems]
      body assms
    show ?thesis
      by (auto simp: placeOrder_def Let_def split: if_splits)
  qed
qed

text \<open>
  The running subtotal is the platform's sum, taken from the left, of the platform's
  products of unit price and quantity over the snapshots taken so far.
\<close>

lemma place_items_subtotal:
  "place_items A d items subtotal acc = Inr (d', subtotal', acc') \<Longrightarrow>
     subtotal = foldl (\<lambda>s it. num_add A s (num_mul A (oi_unitPrice it) (oi_quantity it))) z acc \<Longrightarrow>
     subtotal' = foldl (\<lambda>s it. num_add A s (num_mul A (oi_unitPrice it) (oi_quantity it))) z acc'"
proof (induction items arbitrary: d subtotal acc)
  case Nil
  then show ?case by auto
next
  case (Cons item rest)
  from Cons.prems(1) obtain material where
    m: "materials d (ci_materialId item) = Some material"
    and ok: "m_isAvailable material" "\<not> num_less A (m_stock material) (ci_quantity item)"
      "num_ge A (num_sub A (m_stock material) (ci_quantity item)) (num_lit A 0)"
    by (auto simp: Let_def split: option.splits if_splits)
  let ?snapshot = "\<lparr> oi_materialId = ci_materialId item, oi_name = m_name material,
                      oi_quantity = ci_quantity item, oi_unitPrice = m_unitPrice material,
                      oi_unit = m_unit material \<rparr>"
  let ?d = "d \<lparr> materials := (materials d)(ci_materialId item \<mapsto>
               material \<lparr> m_stock := num_sub A (m_stock material) (ci_quantity item) \<rparr>) \<rparr>"
  let ?subtotal = "num_add A subtotal (num_mul A (m_unitPrice material) (ci_quantity item))"
  from Cons.prems(1) m ok
  have run: "place_items A ?d rest ?subtotal (acc @ [?snapshot]) = Inr (d', subtotal', acc')"
    by (simp add: Let_def)
  from Cons.prems(2)
  have "?subtotal =
          foldl (\<lambda>s it. num_add A s (num_mul A (oi_unitPrice it) (oi_quantity it))) z
            (acc @ [?snapshot])"
    by simp
  from Cons.IH [OF run this] show ?case .
qed

text \<open>
  Claim C2. Every successful placement (status 201) returns and stores an order whose
  delivery fee is the constant 50, whose subtotal is the sum of unit price times quantity
  over its item snapshots, whose total is subtotal plus delivery fee, and whose status is
  pending. The sum, the product and the constants are the platform's: the subtotal is
  what \<open>+\<close> and \<open>*\<close> of lines 35-36 give when the snapshots are summed in order from 0,
  and the total is what \<open>+\<close> of line 52 gives, whatever the arithmetic (IEEE doubles in
  the running program).
\<close>

theorem placeOrder_totals:
  assumes "placeOrder A d user body newId = (reply, d')"
    and "status_code reply = 201"
  shows "\<exists>ord. payload reply = Some ord \<and> orders d' newId = Some ord \<and>
           o_deliveryFee ord = num_lit A 50 \<and>
           o_subtotal ord =
             foldl (\<lambda>s it. num_add A s (num_mul A (oi_unitPrice it) (oi_quantity it)))
               (num_lit A 0) (o_items ord) \<and>
           o_totalAmount ord = num_add A (o_subtotal ord) (o_deliveryFee ord) \<and>
           o_status ord = Pending"
proof -
  from assms obtain supplierId items deliveryAddress where
    body: "pb_supplierId body = Some supplierId" "pb_items body = Some items"
      "pb_deliveryAddress body = Some deliveryAddress"
    and present: "supplierId \<noteq> []" "items \<noteq> []" "deliveryAddress \<noteq> []"
    by (auto simp: placeOrder_def split: option.splits if_splits)
  show ?thesis
  proof (cases "place_items A d items (num_lit A 0) []")
    case (Inl failed)
    obtain r dd where "failed = (r, dd)" by (cases failed)
    with Inl place_items_failed_frame [of A d items "num_lit A 0" "[]" r dd] assms body present
    show ?thesis by (auto simp: placeOrder_def)
  next
    case (Inr passed)
    obtain d1 subtotal orderItems where passed: "passed = (d1, subtotal, orderItems)"
      by (cases passed)
    from place_items_subtotal [of A d items "num_lit A 0" "[]" d1 subtotal orderItems
        "num_lit A 0"] Inr passed
    have "subtotal =
            foldl (\<lambda>s it. num_add A s (num_mul A (oi_unitPrice it) (oi_quantity it)))
              (num_lit A 0) orderItems"
      by simp
    with Inr passed assms body present show ?thesis
      by (auto simp: placeOrder_def Let_def split: if_splits)
  qed
qed

text \<open>
  The spec's scenario: two M1 at 20 and one M2 at 50 give subtotal 90 and total 140.
\<close>

theorem placeOrder_totals_witness:
  "status_code (fst (placeOrder exact (market 10 5) vendor1 (cart ''S1'') ''O1'')) = 201 \<and>
   (\<exists>ord. payload (fst (placeOrder exact (market 10 5) vendor1 (cart ''S1'') ''O1'')) = Some ord \<and>
      orders (snd (placeOrder exact (market 10 5) vendor1 (cart ''S1'') ''O1'')) ''O1'' = Some ord \<and>
      map (\<lambda>it. (oi_unitPrice it, oi_quantity it)) (o_items ord) = [(20, 2), (50, 1)] \<and>
      o_subtotal ord = 90 \<and> o_deliveryFee ord = 50 \<and> o_totalAmount ord = 140 \<and>
      o_status ord = Pending)"
proof -
  let ?run = "placeOrder exact (market 10 5) vendor1 (cart ''S1'') ''O1''"
  have c: "status_code (fst ?run) = 201"
    by (simp add: placement_defs)
  from placeOrder_totals [OF surjective_pairing c] obtain ord where
    o: "payload (fst ?run) = Some ord" "orders (snd ?run) ''O1'' = Some ord"
      "o_deliveryFee ord = num_lit exact 50"
      "o_subtotal ord =
         foldl (\<lambda>s it. num_add exact s (num_mul exact (oi_unitPrice it) (oi_quantity it)))
           (num_lit exact 0) (o_items ord)"
      "o_totalAmount ord = num_add exact (o_subtotal ord) (o_deliveryFee ord)"
      "o_status ord = Pending"
    by blast
  have "map_option (\<lambda>r. map (\<lambda>it. (oi_unitPrice it, oi_quantity it)) (o_items r))
          (payload (fst ?run)) = Some [(20, 2), (50, 1)]"
    by (simp add: placement_defs)
  with o(1) have items: "map (\<lambda>it. (oi_unitPrice it, oi_quantity it)) (o_items ord) =
                           [(20, 2), (50, 1)]"
    by simp
  then obtain i1 i2 where "o_items ord = [i1, i2]"
    "oi_unitPrice i1 = 20" "oi_quantity i1 = 2" "oi_unitPrice i2 = 50" "oi_quantity i2 = 1"
    by auto
  with o(3-5) have totals: "o_subtotal ord = 90 \<and> o_deliveryFee ord = 50 \<and>
                            o_totalAmount ord = 140"
    by (simp add: exact_def)
  from c o(1,2,6) items totals show ?thesis by auto
qed

text \<open>
  Claim C1. A placement with an invalid line item is to fail as a whole and leave every
  stock as it was. The handler does fail and stores no order
  (\<open>placeOrder_failure_stores_no_order\<close>), but line 48 has already saved the decrement
  of each earlier item when a later item makes line 24 or line 30 return: with stock 10
  of M1 and none of M2, the cart of two M1 and one M2 is refused for M2 and M1 is left
  at 8.
\<close>

theorem placeOrder_keeps_partial_decrement:
  "fst (placeOrder exact (market 10 0) vendor1 (cart ''S1'') ''O1'') =
     Reply 400 ''Insufficient stock for Oil. Available: 0'' None \<and>
   orders (snd (placeOrder exact (market 10 0) vendor1 (cart ''S1'') ''O1'')) =
     orders (market 10 0) \<and>
   map_option m_stock (materials (market 10 0) ''M1'') = Some 10 \<and>
   map_option m_stock
     (materials (snd (placeOrder exact (market 10 0) vendor1 (cart ''S1'') ''O1'')) ''M1'')
     = Some 8"
  by (simp add: placement_defs show_int_def show_nat.simps)

subsection \<open>Status transitions\<close>

text \<open>The table of the handler is the table of the spec.\<close>

lemma validTransitions_table: "s \<in> set (validTransitions st) \<longleftrightarrow> table_allows st s"
  by (cases st) (auto simp: table_allows_def)

text \<open>Every status the table can allow is one of the schema's enum.\<close>

lemma status_of_name_allowed:
  "s \<in> set (validTransitions st) \<Longrightarrow> \<exists>st'. status_of_name s = Some st' \<and> status_name st' = s"
  by (cases st) (auto simp: status_of_name_def)

lemma status_of_name_name: "status_of_name s = Some st \<Longrightarrow> status_name st = s"
  by (auto simp: status_of_name_def split: if_splits)

text \<open>The handler writes to the order collection only, and only when it succeeds.\<close>

lemma updateStatus_frame:
  "materials (snd (updateStatus castable parseDate now d user orderId body)) = materials d \<and>
   reviews (snd (updateStatus castable parseDate now d user orderId body)) = reviews d \<and>
   users (snd (updateStatus castable parseDate now d user orderId body)) = users d"
  by (auto simp: updateStatus_def Let_def split: option.splits sum.splits)

lemma updateStatus_failure:
  "updateStatus castable parseDate now d user orderId body = (reply, d') \<Longrightarrow>
     status_code reply \<noteq> 200 \<Longrightarrow> d' = d"
  by (auto simp: updateStatus_def Let_def split: option.splits sum.splits if_splits)

text \<open>What a response 200 of the handler means: every guard passed, and what was saved.\<close>

lemma updateStatus_success:
  assumes "updateStatus castable parseDate now d user orderId body = (reply, d')"
    and "status_code reply = 200"
  shows "\<exists>s ord st eta saved.
           sb_status body = Some s \<and> s \<noteq> [] \<and> orders d orderId = Some ord \<and>
           o_supplierId ord = u_id user \<and> s \<in> set (validTransitions (o_status ord)) \<and>
           status_of_name s = Some st \<and>
           set_estimated parseDate (sb_estimatedDeliveryTime body) (o_estimatedDeliveryTime ord)
             = Some eta \<and>
           saved = ord \<lparr> o_status := st,
                          o_supplierNotes :=
                            (if falsy (sb_supplierNotes body) then o_supplierNotes ord
                             else sb_supplierNotes body),
                          o_estimatedDeliveryTime := eta,
                          o_actualDeliveryTime :=
                            (if s = ''delivered'' then Some now else o_actualDeliveryTime ord) \<rparr> \<and>
           reply = Reply 200 ''Order status updated successfully'' (Some saved) \<and>
           d' = d \<lparr> orders := (orders d)(orderId \<mapsto> saved) \<rparr>"
  using assms
  by (auto simp: updateStatus_def find_by_id_def Let_def
      split: option.splits sum.splits if_splits)

lemmas order_defs = market_with_order_def order1_def status_request_def

text \<open>
  Claim C3. For an order and a requested new status, the transition succeeds only when
  the spec's table allows the requested status from the order's current status
  (pending to confirmed or cancelled, confirmed to out_for_delivery or cancelled,
  out_for_delivery to delivered); so from delivered and from cancelled nothing
  succeeds. A request by the order's supplier for a status the table does not allow is
  refused with the message \<open>Cannot transition from <current> to <requested>\<close>, and
  nothing is written. (A requested status is a non-empty string: the handler answers a
  request without one before it looks at any order.)
\<close>

theorem updateStatus_follows_table:
  assumes "updateStatus castable parseDate now d user orderId body = (reply, d')"
    and "orders d orderId = Some ord"
    and "sb_status body = Some s"
  shows "(status_code reply = 200 \<longrightarrow> table_allows (o_status ord) s) \<and>
         (o_status ord = Delivered \<or> o_status ord = Cancelled \<longrightarrow> status_code reply \<noteq> 200) \<and>
         (o_supplierId ord = u_id user \<and> s \<noteq> [] \<and> \<not> table_allows (o_status ord) s \<longrightarrow>
            reply = Reply 400 (''Cannot transition from '' @ status_name (o_status ord) @
                      '' to '' @ s) None \<and> d' = d)"
proof -
  have legal: "table_allows (o_status ord) s" if "status_code reply = 200"
    using updateStatus_success [OF assms(1) that] assms(2,3)
    by (auto simp: validTransitions_table)
  have terminal: "status_code reply \<noteq> 200"
    if "o_status ord = Delivered \<or> o_status ord = Cancelled"
    using legal that by (auto simp: table_allows_def)
  have refused:
    "reply = Reply 400 (''Cannot transition from '' @ status_name (o_status ord) @
               '' to '' @ s) None \<and> d' = d"
    if "o_supplierId ord = u_id user" "s \<noteq> []" "\<not> table_allows (o_status ord) s"
    using assms that by (auto simp: updateStatus_def find_by_id_def validTransitions_table)
  from legal terminal refused show ?thesis by blast
qed

text \<open>
  The supplier moves a confirmed order out for delivery; a delivered order cannot be
  cancelled; a pending order cannot jump to delivered, and the message says so.
\<close>

theorem updateStatus_follows_table_witness:
  "status_code (fst (updateStatus hex24 parseDate1 0 (market_with_order Confirmed) supplier1 ''O1''
       (status_request ''out_for_delivery''))) = 200 \<and>
   table_allows Confirmed ''out_for_delivery'' \<and>
   status_code (fst (updateStatus hex24 parseDate1 0 (market_with_order Delivered) supplier1 ''O1''
       (status_request ''cancelled''))) \<noteq> 200 \<and>
   fst (updateStatus hex24 parseDate1 0 (market_with_order Pending) supplier1 ''O1''
       (status_request ''delivered'')) =
     Reply 400 ''Cannot transition from pending to delivered'' None"
proof -
  let ?go = "\<lambda>st s. updateStatus hex24 parseDate1 0 (market_with_order st) supplier1 ''O1''
                (status_request s)"
  have stored: "orders (market_with_order st) ''O1'' = Some (order1 ''O1'' st)" for st
    by (simp add: market_with_order_def)
  have asked: "sb_status (status_request s) = Some s" for s
    by (simp add: status_request_def)
  have ok: "status_code (fst (?go Confirmed ''out_for_delivery'')) = 200"
    by (simp add: updateStatus_def find_by_id_def order_defs market_defs status_of_name_def
        set_estimated_def falsy_def Let_def)
  have a: "table_allows Confirmed ''out_for_delivery''"
    using updateStatus_follows_table [OF surjective_pairing stored asked,
        of hex24 parseDate1 0 Confirmed supplier1 "''out_for_delivery''"] ok
    by (simp add: order1_def)
  have b: "status_code (fst (?go Delivered ''cancelled'')) \<noteq> 200"
    using updateStatus_follows_table [OF surjective_pairing stored asked,
        of hex24 parseDate1 0 Delivered supplier1 "''cancelled''"]
    by (simp add: order1_def)
  have c: "fst (?go Pending ''delivered'') =
             Reply 400 ''Cannot transition from pending to delivered'' None"
    using updateStatus_follows_table [OF surjective_pairing stored asked,
        of hex24 parseDate1 0 Pending supplier1 "''delivered''"]
    by (simp add: order1_def supplier1_def table_allows_def)
  from ok a b c show ?thesis by simp
qed




text \<open>
  Claim C7. When a transition to cancelled succeeds, the material collection is the one
  before the call: in particular the stock of every material of the order's item
  snapshots is unchanged, so the quantities the placement took are not put back.
\<close>

theorem updateStatus_cancel_keeps_stock:
  assumes "updateStatus castable parseDate now d user orderId body = (reply, d')"
    and "status_code reply = 200"
    and "sb_status body = Some ''cancelled''"
  shows "materials d' = materials d \<and>
         (\<exists>ord. payload reply = Some ord \<and> orders d' orderId = Some ord \<and>
            o_status ord = Cancelled \<and>
            (\<forall>it \<in> set (o_items ord).
               map_option m_stock (materials d' (oi_materialId it)) =
               map_option m_stock (materials d (oi_materialId it))))"
proof -
  from updateStatus_frame [of castable parseDate now d user orderId body] assms(1)
  have same: "materials d' = materials d" by simp
  from updateStatus_success [OF assms(1,2)] assms(3)
  obtain ord where "payload reply = Some ord" "orders d' orderId = Some ord"
    "o_status ord = Cancelled"
    by (auto simp: status_of_name_def)
  with same show ?thesis by auto
qed

text \<open>
  M1 starts at 10, the placement of the spec's cart takes it to 8, and after the supplier
  cancels that order it is still 8.
\<close>

theorem updateStatus_cancel_keeps_stock_witness:
  "status_code (fst (updateStatus hex24 parseDate1 0
       (snd (placeOrder exact (market 10 5) vendor1 (cart ''S1'') ''O1'')) supplier1 ''O1''
       (status_request ''cancelled''))) = 200 \<and>
   map_option m_stock (materials (market 10 5) ''M1'') = Some 10 \<and>
   map_option m_stock
     (materials (snd (placeOrder exact (market 10 5) vendor1 (cart ''S1'') ''O1'')) ''M1'') = Some 8 \<and>
   map_option m_stock (materials (snd (updateStatus hex24 parseDate1 0
       (snd (placeOrder exact (market 10 5) vendor1 (cart ''S1'') ''O1'')) supplier1 ''O1''
       (status_request ''cancelled''))) ''M1'') = Some 8"
proof -
  let ?placed = "snd (placeOrder exact (market 10 5) vendor1 (cart ''S1'') ''O1'')"
  let ?cancel = "updateStatus hex24 parseDate1 0 ?placed supplier1 ''O1'' (status_request ''cancelled'')"
  have placed: "?placed =
      (market 8 4) \<lparr> orders := [''O1'' \<mapsto>
         \<lparr> o_id = ''O1'', o_vendorId = ''V1'', o_supplierId = ''S1'',
           o_items = [\<lparr> oi_materialId = ''M1'', oi_name = ''Onion'', oi_quantity = 2,
                        oi_unitPrice = 20, oi_unit = ''kg'' \<rparr>,
                      \<lparr> oi_materialId = ''M2'', oi_name = ''Oil'', oi_quantity = 1,
                        oi_unitPrice = 50, oi_unit = ''liter'' \<rparr>],
           o_subtotal = 90, o_deliveryFee = 50, o_totalAmount = 140, o_status = Pending,
           o_deliveryAddress = ''12 Market Road'', o_vendorPhone = ''9000000001'',
           o_supplierNotes = None, o_estimatedDeliveryTime = None,
           o_actualDeliveryTime = None \<rparr>] \<rparr>"
    by (simp add: placement_defs fun_upd_twist)
  have ok: "status_code (fst ?cancel) = 200"
    unfolding placed
    by (simp add: updateStatus_def find_by_id_def status_request_def market_defs
        status_of_name_def set_estimated_def falsy_def Let_def)
  have asked: "sb_status (status_request ''cancelled'') = Some ''cancelled''"
    by (simp add: status_request_def)
  from updateStatus_cancel_keeps_stock [OF surjective_pairing ok asked]
  have "materials (snd ?cancel) = materials ?placed" by blast
  moreover have "map_option m_stock (materials ?placed ''M1'') = Some 8"
    unfolding placed by (simp add: market_defs)
  moreover have "map_option m_stock (materials (market 10 5) ''M1'') = Some 10"
    by (simp add: market_defs)
  ultimately show ?thesis using ok by simp
qed

text \<open>
  Claim C8. On every successful transition the saved order has the requested status;
  its supplier notes are the request's when the request provides them (present and not
  empty) and the old ones otherwise; its estimated delivery time is the date read from
  the request's eta when one is provided and the old one otherwise; and its actual
  delivery time is the current time when the new status is delivered (and the old one
  otherwise).
\<close>

theorem updateStatus_success_fields:
  assumes "updateStatus castable parseDate now d user orderId body = (reply, d')"
    and "status_code reply = 200"
    and "orders d orderId = Some ord"
  shows "\<exists>s saved. sb_status body = Some s \<and> payload reply = Some saved \<and>
           orders d' orderId = Some saved \<and>
           status_name (o_status saved) = s \<and>
           o_supplierNotes saved =
             (if falsy (sb_supplierNotes body) then o_supplierNotes ord
              else sb_supplierNotes body) \<and>
           (falsy (sb_estimatedDeliveryTime body) \<longrightarrow>
              o_estimatedDeliveryTime saved = o_estimatedDeliveryTime ord) \<and>
           (\<forall>e. sb_estimatedDeliveryTime body = Some e \<and> e \<noteq> [] \<longrightarrow>
              parseDate e \<noteq> None \<and> o_estimatedDeliveryTime saved = parseDate e) \<and>
           o_actualDeliveryTime saved =
             (if s = ''delivered'' then Some now else o_actualDeliveryTime ord)"
proof -
  from updateStatus_success [OF assms(1,2)] assms(3)
  obtain s st eta saved where
    s: "sb_status body = Some s" "status_of_name s = Some st"
    and eta: "set_estimated parseDate (sb_estimatedDeliveryTime body)
                (o_estimatedDeliveryTime ord) = Some eta"
    and saved: "saved = ord \<lparr> o_status := st,
                  o_supplierNotes :=
                    (if falsy (sb_supplierNotes body) then o_supplierNotes ord
                     else sb_supplierNotes body),
                  o_estimatedDeliveryTime := eta,
                  o_actualDeliveryTime :=
                    (if s = ''delivered'' then Some now else o_actualDeliveryTime ord) \<rparr>"
    and out: "reply = Reply 200 ''Order status updated successfully'' (Some saved)"
      "d' = d \<lparr> orders := (orders d)(orderId \<mapsto> saved) \<rparr>"
    by auto
  have name: "status_name (o_status saved) = s"
    using s(2) saved by (simp add: status_of_name_name)
  have kept: "o_estimatedDeliveryTime saved = o_estimatedDeliveryTime ord"
    if "falsy (sb_estimatedDeliveryTime body)"
    using eta saved that by (simp add: set_estimated_def)
  have parsed: "parseDate e \<noteq> None \<and> o_estimatedDeliveryTime saved = parseDate e"
    if "sb_estimatedDeliveryTime body = Some e" "e \<noteq> []" for e
  proof (cases "parseDate e")
    case None
    with eta that show ?thesis by (simp add: set_estimated_def falsy_def)
  next
    case (Some t)
    with eta saved that show ?thesis by (auto simp: set_estimated_def falsy_def)
  qed
  from s(1) saved out name kept parsed show ?thesis by auto
qed

text \<open>A delivery with notes and an eta, at time 1735700000000.\<close>

theorem updateStatus_success_fields_witness:
  "status_code (fst (updateStatus hex24 parseDate1 1735700000000 (market_with_order Out_for_delivery)
       supplier1 ''O1''
       \<lparr> sb_status = Some ''delivered'', sb_supplierNotes = Some ''Left at the gate'',
         sb_estimatedDeliveryTime = Some ''2025-01-01T00:00:00.000Z'' \<rparr>)) = 200 \<and>
   (\<exists>saved. orders (snd (updateStatus hex24 parseDate1 1735700000000
        (market_with_order Out_for_delivery) supplier1 ''O1''
        \<lparr> sb_status = Some ''delivered'', sb_supplierNotes = Some ''Left at the gate'',
          sb_estimatedDeliveryTime = Some ''2025-01-01T00:00:00.000Z'' \<rparr>)) ''O1'' = Some saved \<and>
      o_status saved = Delivered \<and>
      o_supplierNotes saved = Some ''Left at the gate'' \<and>
      o_estimatedDeliveryTime saved = Some 1735689600000 \<and>
      o_actualDeliveryTime saved = Some 1735700000000)"
proof -
  let ?body = "\<lparr> sb_status = Some ''delivered'', sb_supplierNotes = Some ''Left at the gate'',
                  sb_estimatedDeliveryTime = Some ''2025-01-01T00:00:00.000Z'' \<rparr>"
  let ?run = "updateStatus hex24 parseDate1 1735700000000 (market_with_order Out_for_delivery)
                supplier1 ''O1'' ?body"
  have ok: "status_code (fst ?run) = 200"
    by (simp add: updateStatus_def find_by_id_def order_defs market_defs status_of_name_def
        set_estimated_def falsy_def parseDate1_def Let_def)
  have stored: "orders (market_with_order Out_for_delivery) ''O1'' =
                  Some (order1 ''O1'' Out_for_delivery)"
    by (simp add: market_with_order_def)
  from updateStatus_success_fields [OF surjective_pairing ok stored]
  obtain saved where
    "orders (snd ?run) ''O1'' = Some saved"
    "status_name (o_status saved) = ''delivered''"
    "o_supplierNotes saved = Some ''Left at the gate''"
    "o_estimatedDeliveryTime saved = Some 1735689600000"
    "o_actualDeliveryTime saved = Some 1735700000000"
    by (auto simp: falsy_def parseDate1_def)
  moreover from this(2) have "o_status saved = Delivered"
    by (cases "o_status saved") simp_all
  ultimately show ?thesis using ok by blast
qed

subsection \<open>Placement and the owner of a material\<close>

lemma reassign_materials_save:
  "(reassign_materials owner d) \<lparr> materials :=
      (materials (reassign_materials owner d))
        (k \<mapsto> (m \<lparr> m_supplierId := owner k \<rparr>) \<lparr> m_stock := s \<rparr>) \<rparr> =
   reassign_materials owner (d \<lparr> materials := (materials d)(k \<mapsto> m \<lparr> m_stock := s \<rparr>) \<rparr>)"
  by (auto simp: reassign_materials_def fun_eq_iff)

text \<open>The loop runs the same way whoever owns the materials.\<close>

lemma place_items_reassign:
  "place_items A (reassign_materials owner d) items subtotal acc =
     (case place_items A d items subtotal acc of
        Inl (reply, dd) \<Rightarrow> Inl (reply, reassign_materials owner dd)
      | Inr (dd, subtotal', acc') \<Rightarrow> Inr (reassign_materials owner dd, subtotal', acc'))"
proof (induction items arbitrary: d subtotal acc)
  case Nil
  then show ?case by simp
next
  case (Cons item rest)
  show ?case
  proof (cases "materials d (ci_materialId item)")
    case None
    then show ?thesis by (simp add: reassign_materials_def)
  next
    case (Some material)
    then have look: "materials (reassign_materials owner d) (ci_materialId item) =
        Some (material \<lparr> m_supplierId := owner (ci_materialId item) \<rparr>)"
      by (simp add: reassign_materials_def)
    show ?thesis
    proof (cases "m_isAvailable material \<and>
        \<not> num_less A (m_stock material) (ci_quantity item) \<and>
        num_ge A (num_sub A (m_stock material) (ci_quantity item)) (num_lit A 0)")
      case True
      with Some look show ?thesis
        by (simp add: Let_def reassign_materials_save Cons.IH)
    next
      case False
      with Some look show ?thesis by (auto simp: Let_def)
    qed
  qed
qed

lemma placeOrder_reassign:
  "fst (placeOrder A (reassign_materials owner d) user body newId) =
   fst (placeOrder A d user body newId)"
proof -
  have o: "orders (reassign_materials owner dd) = orders dd" for dd
    by (simp add: reassign_materials_def)
  show ?thesis
  proof (cases "pb_supplierId body")
    case None
    then show ?thesis by (simp add: placeOrder_def)
  next
    case supplier: (Some supplierId)
    show ?thesis
    proof (cases "pb_items body")
      case None
      with supplier show ?thesis by (simp add: placeOrder_def)
    next
      case items: (Some items)
      show ?thesis
      proof (cases "pb_deliveryAddress body")
        case None
        with supplier items show ?thesis by (simp add: placeOrder_def)
      next
        case address: (Some deliveryAddress)
        show ?thesis
        proof (cases "place_items A d items (num_lit A 0) []")
          case (Inl failed)
          with supplier items address show ?thesis
            by (cases failed) (simp add: placeOrder_def place_items_reassign)
        next
          case (Inr passed)
          with supplier items address show ?thesis
            by (cases passed) (simp add: placeOrder_def place_items_reassign o Let_def)
        qed
      qed
    qed
  qed
qed

text \<open>
  Claim C9. Placement never checks that a cart material belongs to the declared
  supplier: its response is the same whoever owns the materials (under every
  arithmetic), and there is a request
  whose material is owned by another supplier than the declared one for which placement
  succeeds, takes the ordered quantity off that material's stock and stores an order
  attributed to the declared supplier, not to the material's owner. (Vendor V1 orders
  two M1, a material of S1, declaring supplier S2.)
\<close>

theorem placeOrder_foreign_material:
  "(\<forall>A owner d user body newId.
      fst (placeOrder A (reassign_materials owner d) user body newId) =
      fst (placeOrder A d user body newId)) \<and>
   (\<exists>d user body newId declared item m m' ord.
      pb_supplierId body = Some declared \<and> pb_items body = Some [item] \<and>
      materials d (ci_materialId item) = Some m \<and> m_supplierId m \<noteq> declared \<and>
      status_code (fst (placeOrder exact d user body newId)) = 201 \<and>
      materials (snd (placeOrder exact d user body newId)) (ci_materialId item) = Some m' \<and>
      m_stock m' = m_stock m - ci_quantity item \<and> 0 < ci_quantity item \<and>
      orders (snd (placeOrder exact d user body newId)) newId = Some ord \<and>
      o_supplierId ord = declared \<and> o_supplierId ord \<noteq> m_supplierId m)"
proof -
  let ?item = "\<lparr> ci_materialId = ''M1'', ci_quantity = 2 :: int \<rparr>"
  let ?body = "\<lparr> pb_supplierId = Some ''S2'', pb_items = Some [?item],
                  pb_deliveryAddress = Some ''12 Market Road'' \<rparr>"
  let ?ord = "(order1 ''O1'' Pending) \<lparr> o_supplierId := ''S2'' \<rparr>"
  have "pb_supplierId ?body = Some ''S2'' \<and> pb_items ?body = Some [?item] \<and>
        materials (market 10 5) (ci_materialId ?item) = Some (material1 10) \<and>
        m_supplierId (material1 10) \<noteq> ''S2'' \<and>
        status_code (fst (placeOrder exact (market 10 5) vendor1 ?body ''O1'')) = 201 \<and>
        materials (snd (placeOrder exact (market 10 5) vendor1 ?body ''O1'')) (ci_materialId ?item)
          = Some (material1 8) \<and>
        m_stock (material1 8) = m_stock (material1 10) - ci_quantity ?item \<and>
        0 < ci_quantity ?item \<and>
        orders (snd (placeOrder exact (market 10 5) vendor1 ?body ''O1'')) ''O1'' = Some ?ord \<and>
        o_supplierId ?ord = ''S2'' \<and> o_supplierId ?ord \<noteq> m_supplierId (material1 10)"
    by (simp add: placement_defs order1_def)
  then have "\<exists>d user body newId declared item m m' ord.
      pb_supplierId body = Some declared \<and> pb_items body = Some [item] \<and>
      materials d (ci_materialId item) = Some m \<and> m_supplierId m \<noteq> declared \<and>
      status_code (fst (placeOrder exact d user body newId)) = 201 \<and>
      materials (snd (placeOrder exact d user body newId)) (ci_materialId item) = Some m' \<and>
      m_stock m' = m_stock m - ci_quantity item \<and> 0 < ci_quantity item \<and>
      orders (snd (placeOrder exact d user body newId)) newId = Some ord \<and>
      o_supplierId ord = declared \<and> o_supplierId ord \<noteq> m_supplierId m"
    by blast
  with placeOrder_reassign show ?thesis by blast
qed

subsection \<open>Reviews and the supplier's rating\<close>

text \<open>The rating helper writes to the user collection only, whatever the module binds.\<close>

lemma updateSupplierRating_in_frame:
  "materials (updateSupplierRating_in bindings d supplierId) = materials d \<and>
   orders (updateSupplierRating_in bindings d supplierId) = orders d \<and>
   reviews (updateSupplierRating_in bindings d supplierId) = reviews d"
  by (simp add: updateSupplierRating_in_def split: sum.splits option.splits prod.splits)

text \<open>
  In the reviews module the identifier \<open>mongoose\<close> is unbound, so the helper's \<open>try\<close>
  block throws before the aggregation runs and the helper returns without writing.
\<close>

lemma mongoose_unbound:
  "resolve_identifier reviews_module_bindings ''mongoose'' =
     Inl (ReferenceError ''mongoose is not defined'')"
  by (simp add: resolve_identifier_def reviews_module_bindings_def)

lemma updateSupplierRating_returns: "updateSupplierRating d supplierId = d"
  by (simp add: updateSupplierRating_def updateSupplierRating_in_def mongoose_unbound)

lemma addReview_users: "users (snd (addReview d user body)) = users d"
  by (simp add: addReview_def updateSupplierRating_returns Let_def
      split: option.splits)

lemma addReview_failure:
  "status_code (fst (addReview d user body)) \<noteq> 201 \<Longrightarrow> snd (addReview d user body) = d"
  by (auto simp: addReview_def Let_def split: option.splits if_splits)

text \<open>What a response 201 of the handler means.\<close>

lemma addReview_success:
  assumes "addReview d user body = (reply, d')" and "status_code reply = 201"
  shows "\<exists>orderId supplierId rating ord review.
           rb_orderId body = Some orderId \<and> rb_supplierId body = Some supplierId \<and>
           rb_rating body = Some rating \<and> orderId \<noteq> [] \<and> supplierId \<noteq> [] \<and>
           rating \<noteq> 0 \<and> orders d orderId = Some ord \<and>
           o_vendorId ord = u_id user \<and> o_status ord = Delivered \<and>
           find (\<lambda>r. r_orderId r = orderId) (reviews d) = None \<and>
           review = \<lparr> r_vendorId = u_id user, r_supplierId = supplierId,
                      r_orderId = orderId, r_rating = rating,
                      r_comment = rb_comment body, r_categories = rb_categories body \<rparr> \<and>
           reply = Reply 201 ''Review added successfully'' (Some review) \<and>
           d' = updateSupplierRating (d \<lparr> reviews := reviews d @ [review] \<rparr>) supplierId"
  using assms
  by (auto simp: addReview_def Let_def split: option.splits if_splits)

lemma find_appended:
  "P x \<Longrightarrow> find P (xs @ [x]) \<noteq> None"
  by (induction xs) auto

lemmas review_defs =
  addReview_def review_request_def market_delivered_def order1_def review_valid_def
  updateSupplierRating_returns Let_def

text \<open>
  Claim C5. A review submission succeeds (status 201) only when the referenced order
  exists, belongs to the submitting vendor and is delivered, and no review of that order
  is stored yet; the review is then stored. After that, every further submission for the
  same order fails with status 400 and leaves the database, and so the first review, as
  it is; a submission by the same vendor that carries a supplier id and a rating is
  answered \<open>Review already exists for this order\<close>. (The handler answers every refusal
  with status 400; the spec's Conflict is the refusal with this message.)
\<close>

theorem addReview_once:
  assumes "addReview d user body = (reply, d')"
    and "status_code reply = 201"
  shows "(\<exists>orderId ord. rb_orderId body = Some orderId \<and> orders d orderId = Some ord \<and>
            o_vendorId ord = u_id user \<and> o_status ord = Delivered \<and>
            (\<forall>r \<in> set (reviews d). r_orderId r \<noteq> orderId)) \<and>
         (\<exists>review. payload reply = Some review \<and> review \<in> set (reviews d')) \<and>
         (\<forall>user2 body2. rb_orderId body2 = rb_orderId body \<longrightarrow>
            status_code (fst (addReview d' user2 body2)) = 400 \<and>
            snd (addReview d' user2 body2) = d' \<and>
            (u_id user2 = u_id user \<and> \<not> falsy (rb_supplierId body2) \<and>
             rb_rating body2 \<noteq> None \<and> rb_rating body2 \<noteq> Some 0 \<longrightarrow>
               fst (addReview d' user2 body2) =
                 Reply 400 ''Review already exists for this order'' None))"
proof -
  from addReview_success [OF assms] obtain orderId supplierId rating ord review where
    body: "rb_orderId body = Some orderId" "orderId \<noteq> []"
    and ord: "orders d orderId = Some ord" "o_vendorId ord = u_id user"
      "o_status ord = Delivered"
    and fresh: "find (\<lambda>r. r_orderId r = orderId) (reviews d) = None"
    and shape: "review = \<lparr> r_vendorId = u_id user, r_supplierId = supplierId,
                  r_orderId = orderId, r_rating = rating,
                  r_comment = rb_comment body, r_categories = rb_categories body \<rparr>"
    and reply: "reply = Reply 201 ''Review added successfully'' (Some review)"
    and d': "d' = updateSupplierRating (d \<lparr> reviews := reviews d @ [review] \<rparr>) supplierId"
    by blast
  from shape have review: "r_orderId review = orderId" by simp
  from d' have stored: "reviews d' = reviews d @ [review]" and same: "orders d' = orders d"
    by (simp_all add: updateSupplierRating_def updateSupplierRating_in_frame)
  from fresh have first: "\<forall>r \<in> set (reviews d). r_orderId r \<noteq> orderId"
    by (auto simp: find_None_iff)
  from stored review have found: "find (\<lambda>r. r_orderId r = orderId) (reviews d') \<noteq> None"
    by (simp add: find_appended)
  have second:
    "status_code (fst (addReview d' user2 body2)) = 400 \<and>
     snd (addReview d' user2 body2) = d' \<and>
     (u_id user2 = u_id user \<and> \<not> falsy (rb_supplierId body2) \<and>
      rb_rating body2 \<noteq> None \<and> rb_rating body2 \<noteq> Some 0 \<longrightarrow>
        fst (addReview d' user2 body2) =
          Reply 400 ''Review already exists for this order'' None)"
    if "rb_orderId body2 = rb_orderId body" for user2 body2
    using that body ord same found
    by (auto simp: addReview_def falsy_def split: option.splits)
  from body(1) ord first reply stored second show ?thesis by auto
qed

text \<open>V1 reviews the delivered order O1 with 5, then tries again with 4.\<close>

theorem addReview_once_witness:
  "status_code (fst (addReview market_delivered vendor1 (review_request ''O1'' ''S1'' 5))) = 201 \<and>
   fst (addReview (snd (addReview market_delivered vendor1 (review_request ''O1'' ''S1'' 5)))
          vendor1 (review_request ''O1'' ''S1'' 4)) =
     Reply 400 ''Review already exists for this order'' None \<and>
   snd (addReview (snd (addReview market_delivered vendor1 (review_request ''O1'' ''S1'' 5)))
          vendor1 (review_request ''O1'' ''S1'' 4)) =
     snd (addReview market_delivered vendor1 (review_request ''O1'' ''S1'' 5)) \<and>
   map r_rating (reviews (snd (addReview market_delivered vendor1
        (review_request ''O1'' ''S1'' 5)))) = [5]"
proof -
  let ?first = "addReview market_delivered vendor1 (review_request ''O1'' ''S1'' 5)"
  let ?again = "review_request ''O1'' ''S1'' 4"
  have ok: "status_code (fst ?first) = 201"
    by (simp add: review_defs market_defs)
  have same: "rb_orderId ?again = rb_orderId (review_request ''O1'' ''S1'' 5)"
    by (simp add: review_request_def)
  from addReview_once [OF surjective_pairing ok] same
  have "snd (addReview (snd ?first) vendor1 ?again) = snd ?first"
    and "u_id vendor1 = u_id vendor1 \<and> \<not> falsy (rb_supplierId ?again) \<and>
         rb_rating ?again \<noteq> None \<and> rb_rating ?again \<noteq> Some 0 \<longrightarrow>
         fst (addReview (snd ?first) vendor1 ?again) =
           Reply 400 ''Review already exists for this order'' None"
    by blast+
  moreover have "\<not> falsy (rb_supplierId ?again) \<and> rb_rating ?again \<noteq> None \<and>
                 rb_rating ?again \<noteq> Some 0"
    by (simp add: review_request_def falsy_def)
  moreover have "map r_rating (reviews (snd ?first)) = [5]"
    by (simp add: review_defs market_defs)
  ultimately show ?thesis using ok by simp
qed

text \<open>
  Claim C4. After every review submission the supplier's stored average is to be the
  mean of the supplier's ratings rounded to one decimal, and the stored count their
  number. The helper never gets that far (\<open>updateSupplierRating_returns\<close>): after the
  three successful submissions with ratings 5, 3 and 4 for supplier S1, the stored rating
  and count of S1 are still 0 and 0, where the claim says 4.0 and 3.
\<close>

theorem addReview_rating_left_stale:
  "status_code (fst (addReview market_delivered vendor1 (review_request ''O1'' ''S1'' 5))) = 201 \<and>
   status_code (fst (addReview
      (snd (addReview market_delivered vendor1 (review_request ''O1'' ''S1'' 5)))
      vendor1 (review_request ''O2'' ''S1'' 3))) = 201 \<and>
   status_code (fst (addReview
      (snd (addReview
         (snd (addReview market_delivered vendor1 (review_request ''O1'' ''S1'' 5)))
         vendor1 (review_request ''O2'' ''S1'' 3)))
      vendor1 (review_request ''O3'' ''S1'' 4))) = 201 \<and>
   map r_rating (reviews (snd (addReview
      (snd (addReview
         (snd (addReview market_delivered vendor1 (review_request ''O1'' ''S1'' 5)))
         vendor1 (review_request ''O2'' ''S1'' 3)))
      vendor1 (review_request ''O3'' ''S1'' 4)))) = [5, 3, 4] \<and>
   map_option (\<lambda>u. (u_rating u, u_totalRatings u)) (users (snd (addReview
      (snd (addReview
         (snd (addReview market_delivered vendor1 (review_request ''O1'' ''S1'' 5)))
         vendor1 (review_request ''O2'' ''S1'' 3)))
      vendor1 (review_request ''O3'' ''S1'' 4))) ''S1'') = Some (0, 0)"
  by (simp add: review_defs market_defs)

text \<open>
  With \<open>mongoose\<close> among the module's bindings the same helper would store the rounded
  mean and the count, 4.0 and 3 for the ratings 5, 3 and 4.
\<close>

lemma updateSupplierRating_in_bound:
  assumes "''mongoose'' \<in> set bindings"
    and "users d supplierId = Some u"
    and "filter (\<lambda>r. r_supplierId r = supplierId) (reviews d) = matched"
    and "matched \<noteq> []"
  shows "users (updateSupplierRating_in bindings d supplierId) supplierId =
           Some (u \<lparr> u_rating :=
                        of_int (js_round (of_int (sum_list (map r_rating matched)) /
                                          of_nat (length matched) * 10)) / 10,
                      u_totalRatings := length matched \<rparr>)"
  using assms
  by (simp add: updateSupplierRating_in_def resolve_identifier_def aggregate_rating_def Let_def)

lemma updateSupplierRating_intended:
  "map_option (\<lambda>u. (u_rating u, u_totalRatings u))
     (users (updateSupplierRating_in (''mongoose'' # reviews_module_bindings)
        (market_delivered \<lparr> reviews :=
           [\<lparr> r_vendorId = ''V1'', r_supplierId = ''S1'', r_orderId = ''O1'', r_rating = 5,
               r_comment = None, r_categories = None \<rparr>,
            \<lparr> r_vendorId = ''V1'', r_supplierId = ''S1'', r_orderId = ''O2'', r_rating = 3,
               r_comment = None, r_categories = None \<rparr>,
            \<lparr> r_vendorId = ''V1'', r_supplierId = ''S1'', r_orderId = ''O3'', r_rating = 4,
               r_comment = None, r_categories = None \<rparr>] \<rparr>) ''S1'') ''S1'') = Some (4, 3)"
  by (simp add: updateSupplierRating_in_def resolve_identifier_def aggregate_rating_def
      js_round_def market_delivered_def market_defs floor_unique)

text \<open>The handler's response does not depend on who the supplier of any order is.\<close>

lemma addReview_reassign:
  "fst (addReview (reassign_orders supplier d) user body) = fst (addReview d user body)"
  by (auto simp: addReview_def reassign_orders_def Let_def split: option.splits)

text \<open>
  The first half of claim C10 holds. Review submission never checks the declared
  supplier against the supplier of the reviewed order: its response is the same whoever
  the orders' suppliers are, and there is a request that names a delivered order of the
  submitting vendor and a supplier other than the order's for which the submission
  succeeds and the review is stored against the declared supplier.
\<close>

lemma addReview_foreign_supplier:
  "(\<forall>supplier d user body.
      fst (addReview (reassign_orders supplier d) user body) = fst (addReview d user body)) \<and>
   (\<exists>(d :: int db) user body orderId ord declared review.
      rb_orderId body = Some orderId \<and> orders d orderId = Some ord \<and>
      o_vendorId ord = u_id user \<and> o_status ord = Delivered \<and>
      rb_supplierId body = Some declared \<and> declared \<noteq> o_supplierId ord \<and>
      status_code (fst (addReview d user body)) = 201 \<and>
      payload (fst (addReview d user body)) = Some review \<and>
      r_supplierId review = declared \<and> r_orderId review = orderId \<and>
      reviews (snd (addReview d user body)) = reviews d @ [review])"
proof -
  let ?review = "\<lparr> r_vendorId = ''V1'', r_supplierId = ''S2'', r_orderId = ''O1'',
                    r_rating = 5, r_comment = None, r_categories = None \<rparr>"
  have "rb_orderId (review_request ''O1'' ''S2'' 5) = Some ''O1'' \<and>
        orders market_delivered ''O1'' = Some (order1 ''O1'' Delivered) \<and>
        o_vendorId (order1 ''O1'' Delivered) = u_id vendor1 \<and>
        o_status (order1 ''O1'' Delivered) = Delivered \<and>
        rb_supplierId (review_request ''O1'' ''S2'' 5) = Some ''S2'' \<and>
        ''S2'' \<noteq> o_supplierId (order1 ''O1'' Delivered) \<and>
        status_code (fst (addReview market_delivered vendor1 (review_request ''O1'' ''S2'' 5)))
          = 201 \<and>
        payload (fst (addReview market_delivered vendor1 (review_request ''O1'' ''S2'' 5)))
          = Some ?review \<and>
        r_supplierId ?review = ''S2'' \<and> r_orderId ?review = ''O1'' \<and>
        reviews (snd (addReview market_delivered vendor1 (review_request ''O1'' ''S2'' 5)))
          = reviews market_delivered @ [?review]"
    by (simp add: review_defs market_defs)
  then have "\<exists>(d :: int db) user body orderId ord declared review.
      rb_orderId body = Some orderId \<and> orders d orderId = Some ord \<and>
      o_vendorId ord = u_id user \<and> o_status ord = Delivered \<and>
      rb_supplierId body = Some declared \<and> declared \<noteq> o_supplierId ord \<and>
      status_code (fst (addReview d user body)) = 201 \<and>
      payload (fst (addReview d user body)) = Some review \<and>
      r_supplierId review = declared \<and> r_orderId review = orderId \<and>
      reviews (snd (addReview d user body)) = reviews d @ [review]"
    by blast
  with addReview_reassign show ?thesis by blast
qed

text \<open>
  Claim C10. For a request that names a delivered order of the vendor and a supplier
  other than the order's, the review is to be stored against the declared supplier and
  that supplier's rating and count recomputed from it. The handler calls the rating
  helper for the declared supplier (line 49), and the helper never reaches its write
  (\<open>updateSupplierRating_returns\<close>, the defect of claim C4): V1 reviews the delivered
  order O1, an order with supplier S1, declaring supplier S2 and rating 5; the review is
  stored against S2, the aggregation over the stored reviews of S2 gives mean 5 and
  count 1, and the stored rating and count of S2 are still 0 and 0.
\<close>

theorem addReview_foreign_supplier_not_recomputed:
  "map_option o_supplierId (orders market_delivered ''O1'') = Some ''S1'' \<and>
   status_code (fst (addReview market_delivered vendor1 (review_request ''O1'' ''S2'' 5))) = 201 \<and>
   map r_supplierId (reviews (snd (addReview market_delivered vendor1
       (review_request ''O1'' ''S2'' 5)))) = [''S2''] \<and>
   aggregate_rating (reviews (snd (addReview market_delivered vendor1
       (review_request ''O1'' ''S2'' 5)))) ''S2'' = Some (5, 1) \<and>
   map_option (\<lambda>u. (u_rating u, u_totalRatings u)) (users (snd (addReview market_delivered
       vendor1 (review_request ''O1'' ''S2'' 5))) ''S2'') = Some (0, 0)"
  by (simp add: review_defs market_defs aggregate_rating_def)

end
